theory Spec2Isabelle
  imports Complex_Main "HOL-Library.AList"
begin

section \<open>Values and errors of the rotation function\<close>

text \<open>
  The module \<^verbatim>\<open>rotation_lambda.py\<close> is one Lambda entry point, \<^verbatim>\<open>handler\<close>, and the
  four step functions it dispatches to. Every step talks to one collaborator, the
  Secrets Manager client. The step functions are embedded as HOL functions that take the
  client as a parameter and pass the store state explicitly; an exception is a value
  \<open>Inl e\<close> of a sum type.

  A Python \<^verbatim>\<open>str\<close> is a \<open>string\<close>, one character for one code point. The calls to
  \<^verbatim>\<open>logger\<close> only write to the process log and are left out.
\<close>

text \<open>
  What \<^verbatim>\<open>json.loads\<close> returns: a dict keeps its insertion order, so an object is an
  association list, written to with \<open>AList.update\<close> (an existing key keeps its place, a
  new key goes last, as a Python dict does).
\<close>

datatype json =
    JNull
  | JBool bool
  | JInt int
  | JFloat real
  | JStr string
  | JArr "json list"
  | JObj "(string \<times> json) list"

text \<open>
  A \<^verbatim>\<open>SecretString\<close> is represented by the value \<^verbatim>\<open>json.loads\<close> reads from it, or is
  text that is no JSON document. \<^verbatim>\<open>json.dumps\<close> writes a value back, so reading what
  was written returns the value.
\<close>

datatype secret_text = Json json | NotJson string

text \<open>
  The exceptions the module can meet. \<open>ClientError code\<close> is botocore's
  \<^verbatim>\<open>ClientError\<close> with \<^verbatim>\<open>e.response['Error']['Code'] = code\<close>;
  \<open>ParamValidationError\<close> is botocore's exception for a call whose keywords do not fit
  the operation, and no \<^verbatim>\<open>ClientError\<close>; \<open>OtherError\<close> is any other exception a client
  call may raise (a connection failure, say). \<^verbatim>\<open>json.JSONDecodeError\<close> is a subclass of
  \<^verbatim>\<open>ValueError\<close> in Python.

  \<open>CreateFailedError\<close> is the error the specification names for a failed CreateSecret
  (sections 4.2 and 7). The module defines no such class and no function below raises
  it; it is here so that a result can be compared with it.
\<close>

datatype error =
    ClientError string
  | ValueError string
  | JSONDecodeError
  | AttributeError
  | TypeError
  | ParamValidationError
  | OtherError string
  | CreateFailedError

definition loads :: "secret_text \<Rightarrow> error + json" where
  "loads t = (case t of Json j \<Rightarrow> Inr j | NotJson _ \<Rightarrow> Inl JSONDecodeError)"

definition dumps :: "json \<Rightarrow> secret_text" where
  "dumps j = Json j"

section \<open>The Secrets Manager client\<close>

text \<open>
  The client \<^verbatim>\<open>secretsmanager = boto3.client('secretsmanager')\<close> is not part of the
  module. It is a parameter of every step: a record of the four operations the module
  calls, over a store state \<open>'s\<close>. The arguments are the keyword arguments of the calls
  in the source, in this order:
  \<^item> \<open>get_secret_value SecretId VersionId VersionStage\<close> (\<open>VersionId\<close> is absent in
    \<^verbatim>\<open>create_secret\<close>), returning the \<^verbatim>\<open>SecretString\<close>;
  \<^item> \<open>put_secret_value SecretId ClientRequestToken SecretString VersionStages\<close>;
  \<^item> \<open>describe_secret SecretId\<close>, returning \<^verbatim>\<open>VersionIdsToStages\<close>;
  \<^item> \<open>update_secret_version_stage SecretId VersionStage ClientRequestToken
    RemoveFromVersionId\<close>.
  The two queries return no state; a call that raises leaves the store as it was. The
  response of \<^verbatim>\<open>get_secret_value\<close> carries a \<^verbatim>\<open>SecretString\<close> (the secret is text, not
  binary), and the response of \<^verbatim>\<open>describe_secret\<close> carries \<^verbatim>\<open>VersionIdsToStages\<close>.
\<close>

record 's client =
  get_secret_value :: "string \<Rightarrow> string option \<Rightarrow> string \<Rightarrow> 's \<Rightarrow> error + secret_text"
  put_secret_value :: "string \<Rightarrow> string \<Rightarrow> secret_text \<Rightarrow> string list \<Rightarrow> 's \<Rightarrow> error + 's"
  describe_secret :: "string \<Rightarrow> 's \<Rightarrow> error + (string \<times> string set) list"
  update_secret_version_stage :: "string \<Rightarrow> string \<Rightarrow> string \<Rightarrow> string \<Rightarrow> 's \<Rightarrow> error + 's"

section \<open>The step functions\<close>

subsection \<open>create_secret\<close>

text \<open>
  Lines 55 to 63: the new secret data, from the current data, the token and
  \<open>now = int(time.time())\<close>. A dict is copied and, when it has the key
  \<^verbatim>\<open>apiVersion\<close>, gets \<^verbatim>\<open>lastRotated\<close> and \<^verbatim>\<open>rotationId\<close>. A list has \<^verbatim>\<open>copy\<close> and
  \<^verbatim>\<open>in\<close>, but assigning to a string index raises \<^verbatim>\<open>TypeError\<close>. Every other JSON
  value has no \<^verbatim>\<open>copy\<close>: \<^verbatim>\<open>AttributeError\<close>.
\<close>

definition new_secret_data :: "int \<Rightarrow> string \<Rightarrow> json \<Rightarrow> error + json" where
  "new_secret_data now token current_data =
     (case current_data of
        JObj new_data \<Rightarrow>
          (if ''apiVersion'' \<in> fst ` set new_data
           then Inr (JObj (AList.update ''rotationId'' (JStr (take 8 token))
                      (AList.update ''lastRotated'' (JInt now) new_data)))
           else Inr (JObj new_data))
      | JArr new_data \<Rightarrow>
          (if JStr ''apiVersion'' \<in> set new_data then Inl TypeError else Inr (JArr new_data))
      | _ \<Rightarrow> Inl AttributeError)"

text \<open>The body of the \<^verbatim>\<open>try\<close> block, lines 50 to 73.\<close>

definition create_secret_try :: "'s client \<Rightarrow> int \<Rightarrow> string \<Rightarrow> string \<Rightarrow> 's \<Rightarrow> (error + unit) \<times> 's" where
  "create_secret_try c now secret_arn token s =
     (case get_secret_value c secret_arn None ''AWSCURRENT'' s of
        Inl e \<Rightarrow> (Inl e, s)
      | Inr current_secret \<Rightarrow>
          (case loads current_secret of
             Inl e \<Rightarrow> (Inl e, s)
           | Inr current_data \<Rightarrow>
               (case new_secret_data now token current_data of
                  Inl e \<Rightarrow> (Inl e, s)
                | Inr new_data \<Rightarrow>
                    (case put_secret_value c secret_arn token (dumps new_data) [''AWSPENDING''] s of
                       Inl e \<Rightarrow> (Inl e, s)
                     | Inr s' \<Rightarrow> (Inr (), s')))))"

text \<open>
  Lines 75 to 79: a \<^verbatim>\<open>ClientError\<close> with the code \<^verbatim>\<open>ResourceExistsException\<close> is
  logged and the function returns; any other \<^verbatim>\<open>ClientError\<close> is raised again, and an
  exception of another class is not caught at all.
\<close>

definition create_secret :: "'s client \<Rightarrow> int \<Rightarrow> string \<Rightarrow> string \<Rightarrow> 's \<Rightarrow> (error + unit) \<times> 's" where
  "create_secret c now secret_arn token s =
     (case create_secret_try c now secret_arn token s of
        (Inl (ClientError code), s') \<Rightarrow>
          (if code = ''ResourceExistsException'' then (Inr (), s')
           else (Inl (ClientError code), s'))
      | r \<Rightarrow> r)"

subsection \<open>set_secret\<close>

text \<open>Lines 81 to 86: one log line, no call to the client.\<close>

definition set_secret :: "string \<Rightarrow> string \<Rightarrow> 's \<Rightarrow> (error + unit) \<times> 's" where
  "set_secret secret_arn token s = (Inr (), s)"

subsection \<open>test_secret\<close>

text \<open>The loop over \<^verbatim>\<open>required_fields\<close>, lines 107 to 109.\<close>

fun check_required_fields :: "string list \<Rightarrow> (string \<times> json) list \<Rightarrow> error + unit" where
  "check_required_fields [] secret_data = Inr ()"
| "check_required_fields (field # rest) secret_data =
     (if field \<notin> fst ` set secret_data
      then Inl (ValueError (''Required field '' @ [CHR 0x27] @ field @ [CHR 0x27]
                  @ '' missing from secret''))
      else check_required_fields rest secret_data)"

definition required_fields :: "string list" where
  "required_fields = [''apiVersion'']"

text \<open>
  Lines 90 to 115. The \<^verbatim>\<open>except Exception\<close> clause logs and raises the same
  exception again.
\<close>

definition test_secret :: "'s client \<Rightarrow> string \<Rightarrow> string \<Rightarrow> 's \<Rightarrow> (error + unit) \<times> 's" where
  "test_secret c secret_arn token s =
     (case get_secret_value c secret_arn (Some token) ''AWSPENDING'' s of
        Inl e \<Rightarrow> (Inl e, s)
      | Inr pending_secret \<Rightarrow>
          (case loads pending_secret of
             Inl e \<Rightarrow> (Inl e, s)
           | Inr (JObj secret_data) \<Rightarrow> (check_required_fields required_fields secret_data, s)
           | Inr _ \<Rightarrow> (Inl (ValueError ''Secret data must be a JSON object''), s)))"

subsection \<open>finish_secret and get_current_version_id\<close>

text \<open>The loop over \<^verbatim>\<open>VersionIdsToStages.items()\<close>, lines 138 to 141.\<close>

fun first_current :: "(string \<times> string set) list \<Rightarrow> error + string" where
  "first_current [] = Inl (ValueError ''No current version found'')"
| "first_current ((version_id, stages) # rest) =
     (if ''AWSCURRENT'' \<in> stages then Inr version_id else first_current rest)"

definition get_current_version_id :: "'s client \<Rightarrow> string \<Rightarrow> 's \<Rightarrow> error + string" where
  "get_current_version_id c secret_arn s =
     (case describe_secret c secret_arn s of
        Inl e \<Rightarrow> Inl e
      | Inr version_ids_to_stages \<Rightarrow> first_current version_ids_to_stages)"

text \<open>
  Lines 119 to 132. Python evaluates the argument \<^verbatim>\<open>get_current_version_id(secret_arn)\<close>
  before the call to \<^verbatim>\<open>update_secret_version_stage\<close>.
\<close>

definition finish_secret :: "'s client \<Rightarrow> string \<Rightarrow> string \<Rightarrow> 's \<Rightarrow> (error + unit) \<times> 's" where
  "finish_secret c secret_arn token s =
     (case get_current_version_id c secret_arn s of
        Inl e \<Rightarrow> (Inl e, s)
      | Inr current \<Rightarrow>
          (case update_secret_version_stage c secret_arn ''AWSCURRENT'' token current s of
             Inl e \<Rightarrow> (Inl e, s)
           | Inr s' \<Rightarrow> (Inr (), s')))"

subsection \<open>handler\<close>

text \<open>
  The event carries \<^verbatim>\<open>SecretId\<close>, \<^verbatim>\<open>ClientRequestToken\<close> and \<^verbatim>\<open>Step\<close> as strings, as
  the rotation trigger sends them. The response body is \<^verbatim>\<open>json.dumps("Success")\<close>, the
  word in double quotes.
\<close>

record event =
  SecretId :: string
  ClientRequestToken :: string
  Step :: string

record response =
  statusCode :: int
  body :: string

definition handler :: "'s client \<Rightarrow> int \<Rightarrow> event \<Rightarrow> 's \<Rightarrow> (error + response) \<times> 's" where
  "handler c now ev s =
     (let secret_arn = SecretId ev; token = ClientRequestToken ev; step = Step ev;
          r = (if step = ''createSecret'' then create_secret c now secret_arn token s
               else if step = ''setSecret'' then set_secret secret_arn token s
               else if step = ''testSecret'' then test_secret c secret_arn token s
               else if step = ''finishSecret'' then finish_secret c secret_arn token s
               else (Inl (ValueError (''Invalid step: '' @ step)), s))
      in case r of
           (Inl e, s') \<Rightarrow> (Inl e, s')
         | (Inr _, s') \<Rightarrow>
             (Inr \<lparr>statusCode = 200, body = [CHR 0x22] @ ''Success'' @ [CHR 0x22]\<rparr>, s'))"

section \<open>A store for the client\<close>

text \<open>
  Modelled from the spec: the secret store behind the client is a service outside the
  module. Its state and the operations that get, put and describe follow sections 3 and
  6 of the specification. A secret is a mapping from version ids to versions, in the order the
  store lists them; a version is a payload and a set of stage labels; the store maps
  secret ids to secrets. A rotation token is the version id of the version created
  with it. The retiring label is kept by the store alone, no step names it, and it is
  not modelled.
\<close>

record version =
  SecretString :: secret_text
  VersionStages :: "string set"

type_synonym secret = "(string \<times> version) list"

type_synonym store = "string \<Rightarrow> secret option"

text \<open>The ids of the versions that carry a label, in the store's order.\<close>

definition holders :: "string \<Rightarrow> secret \<Rightarrow> string list" where
  "holders label vs = map fst (filter (\<lambda>(i, v). label \<in> VersionStages v) vs)"

text \<open>
  Modelled from the spec: \<^verbatim>\<open>GetSecretValue(secret_id, {version_id | stage})\<close> returns the
  payload of the version that matches, and fails with the not-found condition when the
  secret or a matching version is absent.
\<close>

definition sm_get_secret_value :: "string \<Rightarrow> string option \<Rightarrow> string \<Rightarrow> store \<Rightarrow> error + secret_text" where
  "sm_get_secret_value secret_id version_id stage s =
     (case s secret_id of
        None \<Rightarrow> Inl (ClientError ''ResourceNotFoundException'')
      | Some vs \<Rightarrow>
          (case find (\<lambda>(i, v). stage \<in> VersionStages v \<and>
                        (case version_id of None \<Rightarrow> True | Some t \<Rightarrow> i = t)) vs of
             None \<Rightarrow> Inl (ClientError ''ResourceNotFoundException'')
           | Some (i, v) \<Rightarrow> Inr (SecretString v)))"

text \<open>
  Modelled from the spec: \<^verbatim>\<open>PutSecretValue(secret_id, token, payload, stages)\<close> fails
  with the already-exists condition when the token already has a version, and stores
  nothing then. Otherwise the new version is added with the stages given; a label is
  carried by one version at most, so every other version loses them.
\<close>

definition sm_put_secret_value :: "string \<Rightarrow> string \<Rightarrow> secret_text \<Rightarrow> string list \<Rightarrow> store \<Rightarrow> error + store" where
  "sm_put_secret_value secret_id token payload stages s =
     (case s secret_id of
        None \<Rightarrow> Inl (ClientError ''ResourceNotFoundException'')
      | Some vs \<Rightarrow>
          (if token \<in> fst ` set vs then Inl (ClientError ''ResourceExistsException'')
           else Inr (s(secret_id \<mapsto>
                  map (\<lambda>(i, v). (i, v\<lparr>VersionStages := VersionStages v - set stages\<rparr>)) vs
                  @ [(token, \<lparr>SecretString = payload, VersionStages = set stages\<rparr>)]))))"

text \<open>
  Modelled from the spec: \<^verbatim>\<open>DescribeSecret(secret_id)\<close> returns the mapping of version
  ids to stage labels.
\<close>

definition sm_describe_secret :: "string \<Rightarrow> store \<Rightarrow> error + (string \<times> string set) list" where
  "sm_describe_secret secret_id s =
     (case s secret_id of
        None \<Rightarrow> Inl (ClientError ''ResourceNotFoundException'')
      | Some vs \<Rightarrow> Inr (map (\<lambda>(i, v). (i, VersionStages v)) vs))"

text \<open>
  The operation \<^verbatim>\<open>update_secret_version_stage\<close> of the client has the parameters
  \<^verbatim>\<open>SecretId\<close>, \<^verbatim>\<open>VersionStage\<close>, \<^verbatim>\<open>RemoveFromVersionId\<close> and \<^verbatim>\<open>MoveToVersionId\<close>, the
  four arguments of \<^verbatim>\<open>UpdateVersionStage\<close> in section 6 of the specification. The call in
  line 121 to 126 of the source passes the token under the keyword
  \<^verbatim>\<open>ClientRequestToken\<close>, which the operation does not have, and passes no
  \<^verbatim>\<open>MoveToVersionId\<close>. The client checks the keywords of a call before it sends a
  request: the call of the source is refused with \<^verbatim>\<open>ParamValidationError\<close>, whatever the
  arguments and the store are, and the store is not reached.
\<close>

definition sm_update_secret_version_stage :: "string \<Rightarrow> string \<Rightarrow> string \<Rightarrow> string \<Rightarrow> store \<Rightarrow> error + store" where
  "sm_update_secret_version_stage secret_id version_stage client_request_token
       remove_from_version_id s = Inl ParamValidationError"

definition sm :: "store client" where
  "sm = \<lparr>get_secret_value = sm_get_secret_value,
         put_secret_value = sm_put_secret_value,
         describe_secret = sm_describe_secret,
         update_secret_version_stage = sm_update_secret_version_stage\<rparr>"


text \<open>The ids of the versions of a secret that carry a label; none when the secret is absent.\<close>

definition labelled :: "store \<Rightarrow> string \<Rightarrow> string \<Rightarrow> string list" where
  "labelled s secret_id label = (case s secret_id of None \<Rightarrow> [] | Some vs \<Rightarrow> holders label vs)"

section \<open>Example states\<close>

text \<open>
  The example of section 8 of the specification: a secret whose current payload is
  \<^verbatim>\<open>{"apiVersion": 1}\<close>, rotated with the token \<^verbatim>\<open>tok123\<close> at the time 1700000000.
\<close>

definition demo_payload :: json where
  "demo_payload = JObj [(''apiVersion'', JInt 1)]"

definition demo_rotated :: json where
  "demo_rotated = JObj [(''apiVersion'', JInt 1), (''lastRotated'', JInt 1700000000),
                        (''rotationId'', JStr ''tok123'')]"

definition demo_versions :: secret where
  "demo_versions =
     [(''v1'', \<lparr>SecretString = Json demo_payload, VersionStages = {''AWSCURRENT''}\<rparr>)]"

definition demo_store :: store where
  "demo_store = Map.empty(''demo'' \<mapsto> demo_versions)"

definition demo_pending_versions :: secret where
  "demo_pending_versions =
     [(''v1'', \<lparr>SecretString = Json demo_payload, VersionStages = {''AWSCURRENT''}\<rparr>),
      (''tok123'', \<lparr>SecretString = Json demo_rotated, VersionStages = {''AWSPENDING''}\<rparr>)]"

definition demo_pending :: store where
  "demo_pending = Map.empty(''demo'' \<mapsto> demo_pending_versions)"

text \<open>The same secret with the label \<^verbatim>\<open>CURRENT\<close> on the token's version.\<close>

definition demo_finished_versions :: secret where
  "demo_finished_versions =
     [(''v1'', \<lparr>SecretString = Json demo_payload, VersionStages = {}\<rparr>),
      (''tok123'', \<lparr>SecretString = Json demo_rotated, VersionStages = {''AWSCURRENT''}\<rparr>)]"

definition demo_finished :: store where
  "demo_finished = Map.empty(''demo'' \<mapsto> demo_finished_versions)"

text \<open>A secret whose payloads have no \<^verbatim>\<open>apiVersion\<close>, with a pending version.\<close>

definition plain_payload :: "(string \<times> json) list" where
  "plain_payload = [(''name'', JStr ''app'')]"

definition plain_versions :: secret where
  "plain_versions =
     [(''v1'', \<lparr>SecretString = Json (JObj plain_payload), VersionStages = {''AWSCURRENT''}\<rparr>),
      (''tok123'', \<lparr>SecretString = Json (JObj plain_payload), VersionStages = {''AWSPENDING''}\<rparr>)]"

definition plain_store :: store where
  "plain_store = Map.empty(''plain'' \<mapsto> plain_versions)"

text \<open>A client whose \<^verbatim>\<open>put_secret_value\<close> fails with an internal error of the service.\<close>

definition failing_put :: "store client" where
  "failing_put =
     sm\<lparr>put_secret_value := (\<lambda>_ _ _ _ _. Inl (ClientError ''InternalServiceError''))\<rparr>"

section \<open>Facts about the store\<close>

lemma find_map_f: "find P (map f xs) = map_option f (find (\<lambda>x. P (f x)) xs)"
  by (induction xs) simp_all

lemma find_append_none: "find P xs = None \<Longrightarrow> find P (xs @ ys) = find P ys"
  by (induction xs) (simp_all split: if_splits)

lemma find_append_some: "find P xs = Some x \<Longrightarrow> find P (xs @ ys) = Some x"
  by (induction xs) (simp_all split: if_splits)

lemma first_current_holders:
  "first_current (map (\<lambda>(i, v). (i, VersionStages v)) vs) =
     (case holders ''AWSCURRENT'' vs of
        [] \<Rightarrow> Inl (ValueError ''No current version found'')
      | i # _ \<Rightarrow> Inr i)"
  by (induction vs) (auto simp: holders_def)

subsection \<open>finish_secret\<close>

text \<open>
  For every client: when the version listed first with \<^verbatim>\<open>AWSCURRENT\<close> is the token's
  own, \<^verbatim>\<open>finish_secret\<close> returns early nowhere; it calls the client with the token as the
  version to remove the label from, and its result is the result of that call.
\<close>

lemma finish_secret_already_current:
  assumes "get_current_version_id c secret_arn s = Inr token"
  shows "finish_secret c secret_arn token s =
           (case update_secret_version_stage c secret_arn ''AWSCURRENT'' token token s of
              Inl e \<Rightarrow> (Inl e, s)
            | Inr s' \<Rightarrow> (Inr (), s'))"
  using assms by (simp add: finish_secret_def)

lemma get_current_version_id_sm:
  "s secret_arn = Some vs \<Longrightarrow>
   get_current_version_id sm secret_arn s =
     (case holders ''AWSCURRENT'' vs of
        [] \<Rightarrow> Inl (ValueError ''No current version found'')
      | i # _ \<Rightarrow> Inr i)"
  by (simp add: get_current_version_id_def sm_def sm_describe_secret_def first_current_holders)

text \<open>On the store, \<^verbatim>\<open>finish_secret\<close> returns normally for no input and changes nothing.\<close>

lemma finish_secret_sm_fails:
  "fst (finish_secret sm secret_arn token s) \<noteq> Inr () \<and>
   snd (finish_secret sm secret_arn token s) = s"
  by (simp add: finish_secret_def sm_def sm_update_secret_version_stage_def split: sum.splits)

subsection \<open>create_secret on the store\<close>

lemma sm_put_fresh:
  assumes "s secret_arn = Some vs" "token \<notin> fst ` set vs"
  shows "sm_put_secret_value secret_arn token payload stages s =
           Inr (s(secret_arn \<mapsto>
                  map (\<lambda>(i, v). (i, v\<lparr>VersionStages := VersionStages v - set stages\<rparr>)) vs
                  @ [(token, \<lparr>SecretString = payload, VersionStages = set stages\<rparr>)]))"
  using assms by (simp add: sm_put_secret_value_def)

lemma sm_put_exists:
  assumes "s secret_arn = Some vs" "token \<in> fst ` set vs"
  shows "sm_put_secret_value secret_arn token payload stages s =
           Inl (ClientError ''ResourceExistsException'')"
  using assms by (simp add: sm_put_secret_value_def)

lemma sm_get_current_after_put:
  assumes s: "s secret_arn = Some vs"
  shows "sm_get_secret_value secret_arn None ''AWSCURRENT''
           (s(secret_arn \<mapsto>
              map (\<lambda>(i, v). (i, v\<lparr>VersionStages := VersionStages v - set [''AWSPENDING'']\<rparr>)) vs
              @ [(token, \<lparr>SecretString = payload, VersionStages = set [''AWSPENDING'']\<rparr>)]))
         = sm_get_secret_value secret_arn None ''AWSCURRENT'' s"
proof (cases "find (\<lambda>(i, v). ''AWSCURRENT'' \<in> VersionStages v) vs")
  case None
  then show ?thesis
    using s
    by (simp add: sm_get_secret_value_def find_map_f case_prod_unfold find_append_none)
next
  case (Some iv)
  then show ?thesis
    using s
    by (simp add: sm_get_secret_value_def find_map_f case_prod_unfold find_append_some)
qed

lemma sm_get_pending_after_put:
  assumes s: "s secret_arn = Some vs"
  shows "sm_get_secret_value secret_arn (Some token) ''AWSPENDING''
           (s(secret_arn \<mapsto>
              map (\<lambda>(i, v). (i, v\<lparr>VersionStages := VersionStages v - set [''AWSPENDING'']\<rparr>)) vs
              @ [(token, \<lparr>SecretString = payload, VersionStages = set [''AWSPENDING'']\<rparr>)]))
         = Inr payload"
proof -
  have "find (\<lambda>x. ''AWSPENDING'' \<in> VersionStages (snd x) - {''AWSPENDING''} \<and> fst x = token) vs
          = None"
    by (simp add: find_None_iff)
  then show ?thesis
    by (simp add: sm_get_secret_value_def find_map_f case_prod_unfold find_append_none)
qed

lemma holders_pending_after_put:
  "holders ''AWSPENDING''
     (map (\<lambda>(i, v). (i, v\<lparr>VersionStages := VersionStages v - set [''AWSPENDING'']\<rparr>)) vs
      @ [(token, \<lparr>SecretString = payload, VersionStages = set [''AWSPENDING'']\<rparr>)]) = [token]"
  by (simp add: holders_def filter_map comp_def case_prod_unfold)

lemma new_secret_data_any_time:
  "new_secret_data now token d = Inr nd \<Longrightarrow> \<exists>nd'. new_secret_data now' token d = Inr nd'"
  by (auto simp: new_secret_data_def split: json.splits if_splits)

lemma create_secret_sm_fresh:
  assumes s: "s secret_arn = Some vs" and t: "token \<notin> fst ` set vs"
    and g: "sm_get_secret_value secret_arn None ''AWSCURRENT'' s = Inr (Json d)"
    and n: "new_secret_data now token d = Inr nd"
  shows "create_secret sm now secret_arn token s =
           (Inr (), s(secret_arn \<mapsto>
              map (\<lambda>(i, v). (i, v\<lparr>VersionStages := VersionStages v - set [''AWSPENDING'']\<rparr>)) vs
              @ [(token, \<lparr>SecretString = Json nd, VersionStages = set [''AWSPENDING'']\<rparr>)]))"
  using g n
    sm_put_fresh [where s = s and secret_arn = secret_arn, OF s t, of "Json nd" "[''AWSPENDING'']"]
  by (simp add: create_secret_def create_secret_try_def sm_def loads_def dumps_def)

lemma create_secret_sm_exists:
  assumes s: "s secret_arn = Some vs" and t: "token \<in> fst ` set vs"
    and g: "sm_get_secret_value secret_arn None ''AWSCURRENT'' s = Inr (Json d)"
    and n: "new_secret_data now token d = Inr nd"
  shows "create_secret sm now secret_arn token s = (Inr (), s)"
  using g n
    sm_put_exists [where s = s and secret_arn = secret_arn, OF s t, of "Json nd" "[''AWSPENDING'']"]
  by (simp add: create_secret_def create_secret_try_def sm_def loads_def dumps_def)

lemma create_secret_sm_success:
  assumes f: "create_secret sm now secret_arn token s = (Inr (), s1)"
  shows "\<exists>d nd. sm_get_secret_value secret_arn None ''AWSCURRENT'' s = Inr (Json d) \<and>
                 new_secret_data now token d = Inr nd"
proof -
  have "sm_get_secret_value secret_arn None ''AWSCURRENT'' s
          \<noteq> Inl (ClientError ''ResourceExistsException'')"
    by (simp add: sm_get_secret_value_def split: option.splits prod.splits)
  with f show ?thesis
    by (auto simp: create_secret_def create_secret_try_def sm_def loads_def dumps_def
        new_secret_data_def
        split: sum.splits secret_text.splits error.splits if_splits json.splits)
qed

section \<open>Properties\<close>

text \<open>
  C1. FinishSecret when the token's version already carries \<^verbatim>\<open>CURRENT\<close>. In the example
  secret with \<^verbatim>\<open>CURRENT\<close> on the version of the token \<^verbatim>\<open>tok123\<close>, the version found as
  current is the token's own, and FinishSecret with that token does not return as a
  no-op: the step has no check for this case, it calls \<^verbatim>\<open>update_secret_version_stage\<close>
  as in every other case, and the call is refused with \<^verbatim>\<open>ParamValidationError\<close>, which
  the step raises.
\<close>

theorem finish_secret_retry_raises:
  "get_current_version_id sm ''demo'' demo_finished = Inr ''tok123'' \<and>
   finish_secret sm ''demo'' ''tok123'' demo_finished = (Inl ParamValidationError, demo_finished)"
  by (simp add: finish_secret_def get_current_version_id_def sm_def sm_describe_secret_def
      sm_update_secret_version_stage_def demo_finished_def demo_finished_versions_def)


text \<open>
  C3. CreateSecret twice. When a first CreateSecret with a token that has no version
  yet has succeeded, exactly one version carries \<^verbatim>\<open>PENDING\<close>, the token's; a second
  CreateSecret with the same secret id and token, at any time, succeeds (the store
  reports that the version exists) and returns the store it was given, so the version
  of the first call is neither overwritten nor modified.
\<close>

theorem create_secret_twice:
  assumes s: "s secret_arn = Some vs"
    and t: "token \<notin> fst ` set vs"
    and f: "create_secret sm now secret_arn token s = (Inr (), s1)"
  shows "create_secret sm now' secret_arn token s1 = (Inr (), s1) \<and>
         labelled s1 secret_arn ''AWSPENDING'' = [token]"
proof -
  from create_secret_sm_success [OF f] obtain d nd where
    g: "sm_get_secret_value secret_arn None ''AWSCURRENT'' s = Inr (Json d)"
    and n: "new_secret_data now token d = Inr nd" by blast
  let ?vs1 = "map (\<lambda>(i, v). (i, v\<lparr>VersionStages := VersionStages v - set [''AWSPENDING'']\<rparr>)) vs
              @ [(token, \<lparr>SecretString = Json nd, VersionStages = set [''AWSPENDING'']\<rparr>)]"
  from f create_secret_sm_fresh [where s = s and secret_arn = secret_arn, OF s t g n]
  have s1: "s1 = s(secret_arn \<mapsto> ?vs1)" by simp
  then have s1': "s1 secret_arn = Some ?vs1" by simp
  have t1: "token \<in> fst ` set ?vs1" by simp
  have g1: "sm_get_secret_value secret_arn None ''AWSCURRENT'' s1 = Inr (Json d)"
    unfolding s1
    using sm_get_current_after_put [where s = s and secret_arn = secret_arn, OF s] g by simp
  from new_secret_data_any_time [OF n] obtain nd' where
    n': "new_secret_data now' token d = Inr nd'"
    by blast
  have a: "create_secret sm now' secret_arn token s1 = (Inr (), s1)"
    by (rule create_secret_sm_exists [where s = s1 and secret_arn = secret_arn, OF s1' t1 g1 n'])
  have b: "labelled s1 secret_arn ''AWSPENDING'' = [token]"
    unfolding labelled_def s1' option.case by (rule holders_pending_after_put)
  from a b show ?thesis ..
qed

theorem create_secret_twice_witness:
  "create_secret sm 1700000000 ''demo'' ''tok123'' demo_store = (Inr (), demo_pending) \<and>
   create_secret sm 1700000060 ''demo'' ''tok123'' demo_pending = (Inr (), demo_pending) \<and>
   labelled demo_pending ''demo'' ''AWSPENDING'' = [''tok123'']"
proof -
  have s: "demo_store ''demo'' = Some demo_versions"
    by (simp add: demo_store_def)
  have t: "''tok123'' \<notin> fst ` set demo_versions"
    by (simp add: demo_versions_def)
  have f: "create_secret sm 1700000000 ''demo'' ''tok123'' demo_store = (Inr (), demo_pending)"
    by (simp add: create_secret_def create_secret_try_def sm_def sm_get_secret_value_def
        sm_put_secret_value_def loads_def dumps_def new_secret_data_def demo_store_def
        demo_versions_def demo_payload_def demo_rotated_def demo_pending_def
        demo_pending_versions_def)
  from f create_secret_twice [where s = demo_store and secret_arn = "''demo''", OF s t f, of 1700000060]
  show ?thesis by simp
qed

text \<open>
  C4. TestSecret changes no stage label. For every client, secret id, token and store,
  TestSecret returns the store it was given, whether it succeeds or raises; so the
  mapping from version ids to stage labels that the store describes, of any secret, is
  the same before and after.
\<close>

theorem test_secret_frame:
  "snd (test_secret c secret_arn token s) = s \<and>
   describe_secret c a (snd (test_secret c secret_arn token s)) = describe_secret c a s"
  by (simp add: test_secret_def split: sum.splits json.splits)

theorem test_secret_frame_witness:
  "fst (test_secret sm ''demo'' ''tok123'' demo_pending) = Inr () \<and>
   snd (test_secret sm ''demo'' ''tok123'' demo_pending) = demo_pending \<and>
   describe_secret sm ''demo'' (snd (test_secret sm ''demo'' ''tok123'' demo_pending))
     = describe_secret sm ''demo'' demo_pending \<and>
   snd (test_secret sm ''plain'' ''tok123'' plain_store) = plain_store"
proof -
  have "fst (test_secret sm ''demo'' ''tok123'' demo_pending) = Inr ()"
    by (simp add: test_secret_def sm_def sm_get_secret_value_def loads_def required_fields_def
        demo_pending_def demo_pending_versions_def demo_rotated_def)
  with test_secret_frame [of sm "''demo''" "''tok123''" demo_pending "''demo''"]
    test_secret_frame [of sm "''plain''" "''tok123''" plain_store "''plain''"]
  show ?thesis by simp
qed

text \<open>
  C5. TestSecret on a payload without a required field. When the pending version of the
  token holds an object that has no key \<^verbatim>\<open>apiVersion\<close>, TestSecret raises the
  \<^verbatim>\<open>ValueError\<close> that names the field, returns the store it was given, and the version
  can still be fetched under \<^verbatim>\<open>PENDING\<close>.
\<close>

theorem test_secret_missing_field:
  assumes g: "get_secret_value c secret_arn (Some token) ''AWSPENDING'' s
                = Inr (Json (JObj secret_data))"
    and k: "''apiVersion'' \<notin> fst ` set secret_data"
  shows "test_secret c secret_arn token s =
           (Inl (ValueError (''Required field '' @ [CHR 0x27] @ ''apiVersion'' @ [CHR 0x27]
                   @ '' missing from secret'')), s) \<and>
         get_secret_value c secret_arn (Some token) ''AWSPENDING''
             (snd (test_secret c secret_arn token s)) = Inr (Json (JObj secret_data))"
  using g k by (simp add: test_secret_def loads_def required_fields_def)

theorem test_secret_missing_field_witness:
  "''apiVersion'' \<notin> fst ` set plain_payload \<and>
   test_secret sm ''plain'' ''tok123'' plain_store =
     (Inl (ValueError (''Required field '' @ [CHR 0x27] @ ''apiVersion'' @ [CHR 0x27]
             @ '' missing from secret'')), plain_store) \<and>
   labelled plain_store ''plain'' ''AWSPENDING'' = [''tok123'']"
proof -
  have g: "get_secret_value sm ''plain'' (Some ''tok123'') ''AWSPENDING'' plain_store
             = Inr (Json (JObj plain_payload))"
    by (simp add: sm_def sm_get_secret_value_def plain_store_def plain_versions_def)
  have k: "''apiVersion'' \<notin> fst ` set plain_payload"
    by (simp add: plain_payload_def)
  have l: "labelled plain_store ''plain'' ''AWSPENDING'' = [''tok123'']"
    by (simp add: labelled_def holders_def plain_store_def plain_versions_def)
  from k l test_secret_missing_field [OF g k] show ?thesis by simp
qed

text \<open>
  C6. An unknown step. The handler compares the step with \<^verbatim>\<open>createSecret\<close>,
  \<^verbatim>\<open>setSecret\<close>, \<^verbatim>\<open>testSecret\<close> and \<^verbatim>\<open>finishSecret\<close>, the names of the four steps as the
  trigger sends them. For every other step it raises the \<^verbatim>\<open>ValueError\<close> that names the
  step, once, whatever the client is, and returns the store it was given: no step
  function runs.
\<close>

theorem handler_invalid_step:
  assumes "Step ev \<notin> {''createSecret'', ''setSecret'', ''testSecret'', ''finishSecret''}"
  shows "handler c now ev s = (Inl (ValueError (''Invalid step: '' @ Step ev)), s)"
  using assms by (simp add: handler_def Let_def)

theorem handler_invalid_step_witness:
  "handler sm 1700000000
     \<lparr>SecretId = ''demo'', ClientRequestToken = ''tok123'', Step = ''rollbackSecret''\<rparr>
     demo_pending
   = (Inl (ValueError ''Invalid step: rollbackSecret''), demo_pending)"
  using handler_invalid_step [of
      "\<lparr>SecretId = ''demo'', ClientRequestToken = ''tok123'', Step = ''rollbackSecret''\<rparr>"
      sm 1700000000 demo_pending]
  by simp

text \<open>
  C7. A store error in CreateSecret's put. When \<^verbatim>\<open>put_secret_value\<close> raises an error
  other than the \<^verbatim>\<open>ClientError\<close> with the code \<^verbatim>\<open>ResourceExistsException\<close>, CreateSecret
  raises that same error to its caller, unchanged, and the store is as it was.
\<close>

theorem create_secret_put_error:
  assumes g: "get_secret_value c secret_arn None ''AWSCURRENT'' s = Inr (Json d)"
    and n: "new_secret_data now token d = Inr nd"
    and p: "put_secret_value c secret_arn token (dumps nd) [''AWSPENDING''] s = Inl e"
    and e: "e \<noteq> ClientError ''ResourceExistsException''"
  shows "create_secret c now secret_arn token s = (Inl e, s)"
  using assms
  by (cases e) (simp_all add: create_secret_def create_secret_try_def loads_def)

theorem create_secret_put_error_witness:
  "create_secret failing_put 1700000000 ''demo'' ''tok123'' demo_store
     = (Inl (ClientError ''InternalServiceError''), demo_store)"
proof -
  have g: "get_secret_value failing_put ''demo'' None ''AWSCURRENT'' demo_store
             = Inr (Json demo_payload)"
    by (simp add: failing_put_def sm_def sm_get_secret_value_def demo_store_def demo_versions_def)
  have n: "new_secret_data 1700000000 ''tok123'' demo_payload = Inr demo_rotated"
    by (simp add: new_secret_data_def demo_payload_def demo_rotated_def)
  have p: "put_secret_value failing_put ''demo'' ''tok123'' (dumps demo_rotated) [''AWSPENDING'']
             demo_store = Inl (ClientError ''InternalServiceError'')"
    by (simp add: failing_put_def)
  have e: "ClientError ''InternalServiceError'' \<noteq> ClientError ''ResourceExistsException''"
    by simp
  show ?thesis by (rule create_secret_put_error [OF g n p e])
qed

text \<open>
  C7, as the claim words it, fails: with a client whose put raises the \<^verbatim>\<open>ClientError\<close>
  \<^verbatim>\<open>InternalServiceError\<close>, CreateSecret raises that \<^verbatim>\<open>ClientError\<close> itself and not a
  \<open>CreateFailedError\<close>.
\<close>

theorem create_secret_put_error_counterexample:
  "put_secret_value failing_put ''demo'' ''tok123'' (dumps demo_rotated) [''AWSPENDING'']
       demo_store = Inl (ClientError ''InternalServiceError'') \<and>
   create_secret failing_put 1700000000 ''demo'' ''tok123'' demo_store
     = (Inl (ClientError ''InternalServiceError''), demo_store) \<and>
   fst (create_secret failing_put 1700000000 ''demo'' ''tok123'' demo_store)
     \<noteq> Inl CreateFailedError"
  by (simp add: create_secret_def create_secret_try_def failing_put_def sm_def
      sm_get_secret_value_def loads_def dumps_def new_secret_data_def demo_store_def
      demo_versions_def demo_payload_def)

text \<open>
  C8. SetSecret succeeds for every secret id and token and returns the store it was
  given; it takes no client, so it performs no operation on the store.
\<close>

theorem set_secret_noop: "set_secret secret_arn token s = (Inr (), s)"
  by (simp add: set_secret_def)

theorem set_secret_noop_witness:
  "set_secret ''demo'' ''tok123'' demo_pending = (Inr (), demo_pending)"
  by (rule set_secret_noop)

text \<open>
  C9. CreateSecret on a payload with \<^verbatim>\<open>apiVersion\<close>. When the current payload is an
  object that has the key \<^verbatim>\<open>apiVersion\<close> and the token has no version yet, CreateSecret
  succeeds, and the version then fetched for the token under \<^verbatim>\<open>PENDING\<close> holds the
  current payload with \<^verbatim>\<open>lastRotated\<close> set to the integer time and \<^verbatim>\<open>rotationId\<close> set to
  the first 8 characters of the token.
\<close>

theorem create_secret_rotates:
  assumes s: "s secret_arn = Some vs"
    and t: "token \<notin> fst ` set vs"
    and g: "sm_get_secret_value secret_arn None ''AWSCURRENT'' s = Inr (Json (JObj current_data))"
    and k: "''apiVersion'' \<in> fst ` set current_data"
  shows "fst (create_secret sm now secret_arn token s) = Inr () \<and>
         sm_get_secret_value secret_arn (Some token) ''AWSPENDING''
             (snd (create_secret sm now secret_arn token s)) =
           Inr (Json (JObj (AList.update ''rotationId'' (JStr (take 8 token))
                       (AList.update ''lastRotated'' (JInt now) current_data))))"
proof -
  have n: "new_secret_data now token (JObj current_data) =
             Inr (JObj (AList.update ''rotationId'' (JStr (take 8 token))
                       (AList.update ''lastRotated'' (JInt now) current_data)))"
    using k by (simp add: new_secret_data_def)
  show ?thesis
    unfolding create_secret_sm_fresh [where s = s and secret_arn = secret_arn, OF s t g n]
      fst_conv snd_conv
    using sm_get_pending_after_put [where s = s and secret_arn = secret_arn, OF s] by simp
qed

theorem create_secret_rotates_witness:
  "fst (create_secret sm 1700000000 ''demo'' ''tok123'' demo_store) = Inr () \<and>
   sm_get_secret_value ''demo'' (Some ''tok123'') ''AWSPENDING''
       (snd (create_secret sm 1700000000 ''demo'' ''tok123'' demo_store)) =
     Inr (Json (JObj [(''apiVersion'', JInt 1), (''lastRotated'', JInt 1700000000),
                      (''rotationId'', JStr ''tok123'')]))"
proof -
  have s: "demo_store ''demo'' = Some demo_versions"
    by (simp add: demo_store_def)
  have t: "''tok123'' \<notin> fst ` set demo_versions"
    by (simp add: demo_versions_def)
  have g: "sm_get_secret_value ''demo'' None ''AWSCURRENT'' demo_store
             = Inr (Json (JObj [(''apiVersion'', JInt 1)]))"
    by (simp add: sm_get_secret_value_def demo_store_def demo_versions_def demo_payload_def)
  have k: "''apiVersion'' \<in> fst ` set [(''apiVersion'', JInt 1)]"
    by simp
  from create_secret_rotates [where s = demo_store and secret_arn = "''demo''", OF s t g k, of 1700000000]
  show ?thesis by simp
qed

text \<open>
  C10. CreateSecret on a payload without \<^verbatim>\<open>apiVersion\<close>. When the current payload is an
  object that has no key \<^verbatim>\<open>apiVersion\<close> and the token has no version yet, CreateSecret
  succeeds, and the version then fetched for the token under \<^verbatim>\<open>PENDING\<close> holds exactly
  the current payload.
\<close>

theorem create_secret_keeps:
  assumes s: "s secret_arn = Some vs"
    and t: "token \<notin> fst ` set vs"
    and g: "sm_get_secret_value secret_arn None ''AWSCURRENT'' s = Inr (Json (JObj current_data))"
    and k: "''apiVersion'' \<notin> fst ` set current_data"
  shows "fst (create_secret sm now secret_arn token s) = Inr () \<and>
         sm_get_secret_value secret_arn (Some token) ''AWSPENDING''
             (snd (create_secret sm now secret_arn token s)) =
           Inr (Json (JObj current_data))"
proof -
  have n: "new_secret_data now token (JObj current_data) = Inr (JObj current_data)"
    using k by (simp add: new_secret_data_def)
  show ?thesis
    unfolding create_secret_sm_fresh [where s = s and secret_arn = secret_arn, OF s t g n]
      fst_conv snd_conv
    using sm_get_pending_after_put [where s = s and secret_arn = secret_arn, OF s] by simp
qed

theorem create_secret_keeps_witness:
  "fst (create_secret sm 1700000000 ''plain'' ''tok456'' plain_store) = Inr () \<and>
   sm_get_secret_value ''plain'' (Some ''tok456'') ''AWSPENDING''
       (snd (create_secret sm 1700000000 ''plain'' ''tok456'' plain_store)) =
     Inr (Json (JObj [(''name'', JStr ''app'')]))"
proof -
  have s: "plain_store ''plain'' = Some plain_versions"
    by (simp add: plain_store_def)
  have t: "''tok456'' \<notin> fst ` set plain_versions"
    by (simp add: plain_versions_def)
  have g: "sm_get_secret_value ''plain'' None ''AWSCURRENT'' plain_store
             = Inr (Json (JObj plain_payload))"
    by (simp add: sm_get_secret_value_def plain_store_def plain_versions_def)
  have k: "''apiVersion'' \<notin> fst ` set plain_payload"
    by (simp add: plain_payload_def)
  from create_secret_keeps [where s = plain_store and secret_arn = "''plain''", OF s t g k, of 1700000000]
  show ?thesis by (simp add: plain_payload_def)
qed

end
